theory Spec2Isabelle
  imports Main "HOL-Library.Word"
begin

unbundle bit_operations_syntax

section \<open>Python values and exceptions\<close>

text \<open>
  Every exception the modelled code can raise is a value. \<open>PaSimpleError\<close> is the
  package's own exception class and carries its message; the others are the built-in
  exceptions raised by the dictionary lookups, by \<open>bytearray\<close> and by ctypes.
\<close>

datatype error =
    PaSimpleError string
  | KeyError int
  | TypeError string
  | ValueError string
  | AttributeError string
  | OverflowError string
  | MemoryError

type_synonym byte = "8 word"

text \<open>Python's \<open>str\<close> of an integer, as the f-strings of the error messages use it.\<close>

definition digit_char :: "nat \<Rightarrow> char" where
  "digit_char d = char_of (of_char (CHR ''0'') + d)"

fun str_nat :: "nat \<Rightarrow> string" where
  "str_nat n = (if n < 10 then [digit_char n] else str_nat (n div 10) @ [digit_char (n mod 10)])"

definition str_int :: "int \<Rightarrow> string" where
  "str_int i = (if i < 0 then CHR ''-'' # str_nat (nat (- i)) else str_nat (nat i))"

section \<open>Package constants (\<open>pasimple/__init__.py\<close>)\<close>

definition PA_STREAM_PLAYBACK :: int where "PA_STREAM_PLAYBACK = 1"
definition PA_STREAM_RECORD :: int where "PA_STREAM_RECORD = 2"

definition PA_SAMPLE_U8 :: int where "PA_SAMPLE_U8 = 0"
definition PA_SAMPLE_ALAW :: int where "PA_SAMPLE_ALAW = 1"
definition PA_SAMPLE_ULAW :: int where "PA_SAMPLE_ULAW = 2"
definition PA_SAMPLE_S16LE :: int where "PA_SAMPLE_S16LE = 3"
definition PA_SAMPLE_S16BE :: int where "PA_SAMPLE_S16BE = 4"
definition PA_SAMPLE_FLOAT32LE :: int where "PA_SAMPLE_FLOAT32LE = 5"
definition PA_SAMPLE_FLOAT32BE :: int where "PA_SAMPLE_FLOAT32BE = 6"
definition PA_SAMPLE_S32LE :: int where "PA_SAMPLE_S32LE = 7"
definition PA_SAMPLE_S32BE :: int where "PA_SAMPLE_S32BE = 8"
definition PA_SAMPLE_S24LE :: int where "PA_SAMPLE_S24LE = 9"
definition PA_SAMPLE_S24BE :: int where "PA_SAMPLE_S24BE = 10"
definition PA_SAMPLE_S24_32LE :: int where "PA_SAMPLE_S24_32LE = 11"
definition PA_SAMPLE_S24_32BE :: int where "PA_SAMPLE_S24_32BE = 12"

lemmas PA_SAMPLE_defs =
  PA_SAMPLE_U8_def PA_SAMPLE_ALAW_def PA_SAMPLE_ULAW_def PA_SAMPLE_S16LE_def
  PA_SAMPLE_S16BE_def PA_SAMPLE_FLOAT32LE_def PA_SAMPLE_FLOAT32BE_def PA_SAMPLE_S32LE_def
  PA_SAMPLE_S32BE_def PA_SAMPLE_S24LE_def PA_SAMPLE_S24BE_def PA_SAMPLE_S24_32LE_def
  PA_SAMPLE_S24_32BE_def

text \<open>The thirteen \<open>PA_SAMPLE_*\<close> formats the module defines, in the order of the source.\<close>

definition sample_formats :: "int list" where
  "sample_formats =
     [PA_SAMPLE_U8, PA_SAMPLE_ALAW, PA_SAMPLE_ULAW, PA_SAMPLE_S16LE, PA_SAMPLE_S16BE,
      PA_SAMPLE_FLOAT32LE, PA_SAMPLE_FLOAT32BE, PA_SAMPLE_S32LE, PA_SAMPLE_S32BE,
      PA_SAMPLE_S24LE, PA_SAMPLE_S24BE, PA_SAMPLE_S24_32LE, PA_SAMPLE_S24_32BE]"

section \<open>Format catalog\<close>

text \<open>
  The two lookup tables are dict literals; a dict is a map, and subscripting a dict with a
  key it does not hold raises \<open>KeyError(key)\<close>.
\<close>

definition LOOKUP_FORMAT_BY_WIDTH :: "int \<rightharpoonup> int" where
  "LOOKUP_FORMAT_BY_WIDTH = map_of
     [(1, PA_SAMPLE_U8),
      (2, PA_SAMPLE_S16LE),
      (3, PA_SAMPLE_S24LE),
      (4, PA_SAMPLE_S32LE)]"

definition LOOKUP_WIDTH_BY_FORMAT :: "int \<rightharpoonup> int" where
  "LOOKUP_WIDTH_BY_FORMAT = map_of
     [(PA_SAMPLE_U8, 1),
      (PA_SAMPLE_ALAW, 1),
      (PA_SAMPLE_ULAW, 1),
      (PA_SAMPLE_S16LE, 2),
      (PA_SAMPLE_S16BE, 2),
      (PA_SAMPLE_FLOAT32LE, 4),
      (PA_SAMPLE_FLOAT32BE, 4),
      (PA_SAMPLE_S32LE, 4),
      (PA_SAMPLE_S32BE, 4),
      (PA_SAMPLE_S24LE, 3),
      (PA_SAMPLE_S24BE, 3),
      (PA_SAMPLE_S24_32LE, 4),
      (PA_SAMPLE_S24_32BE, 4)]"

definition subscript :: "(int \<rightharpoonup> int) \<Rightarrow> int \<Rightarrow> error + int" where
  "subscript d k = (case d k of None \<Rightarrow> Inl (KeyError k) | Some v \<Rightarrow> Inr v)"

definition width2format :: "int \<Rightarrow> error + int" where
  "width2format sample_width = subscript LOOKUP_FORMAT_BY_WIDTH sample_width"

definition format2width :: "int \<Rightarrow> error + int" where
  "format2width audio_format = subscript LOOKUP_WIDTH_BY_FORMAT audio_format"

section \<open>The ctypes boundary (\<open>pasimple/pa_simple.py\<close>)\<close>

text \<open>
  A ctypes \<open>c_void_p\<close> value as Python sees it: \<open>None\<close> for the null pointer, else
  the address as an integer.
\<close>

type_synonym pointer = "int option"

text \<open>
  The module declares no \<open>argtypes\<close>, so ctypes passes a Python integer to a foreign
  function as a C \<open>int\<close>: the low 32 bits of the integer, read as a signed value. (The
  conversion itself raises for an integer below \<open>- 2 ^ 63\<close> or from \<open>2 ^ 64\<close>; the
  two lengths passed below are never in that range, and the direction is taken not to be.)
\<close>

definition as_c_int :: "int \<Rightarrow> int" where
  "as_c_int v = sint (word_of_int v :: 32 word)"

text \<open>
  The two structures handed to the native open call. Assigning a Python integer to a
  ctypes integer field stores it modulo the field's width, without a range check.
\<close>

record pa_sample_spec =
  ss_format :: "32 word"
  ss_rate :: "32 word"
  ss_channels :: "8 word"

record pa_buffer_attr =
  maxlength :: "32 word"
  tlength :: "32 word"
  prebuf :: "32 word"
  minreq :: "32 word"
  fragsize :: "32 word"

definition pa_sample_spec_of :: "int \<Rightarrow> int \<Rightarrow> int \<Rightarrow> pa_sample_spec" where
  "pa_sample_spec_of fmt rt chans =
     \<lparr>ss_format = of_int fmt, ss_rate = of_int rt, ss_channels = of_int chans\<rparr>"

definition pa_buffer_attr_of :: "int \<Rightarrow> int \<Rightarrow> int \<Rightarrow> int \<Rightarrow> int \<Rightarrow> pa_buffer_attr" where
  "pa_buffer_attr_of ml tln pb mr fs =
     \<lparr>maxlength = of_int ml, tlength = of_int tln, prebuf = of_int pb,
      minreq = of_int mr, fragsize = of_int fs\<rparr>"

text \<open>The arguments of one \<open>pa_simple_new\<close> call, in the order the call passes them.\<close>

record new_args =
  arg_server_name :: "string option"
  arg_app_name :: string
  arg_direction :: int
  arg_device_name :: "string option"
  arg_stream_name :: string
  arg_sample_spec :: pa_sample_spec
  arg_buffer_attr :: pa_buffer_attr

text \<open>Every call that crosses into the native library is recorded, in order.\<close>

datatype native_call =
    Pa_simple_new new_args
  | Pa_simple_free pointer
  | Pa_simple_read pointer int
  | Pa_simple_write pointer "byte list" int
  | Pa_simple_drain pointer
  | Pa_simple_flush pointer
  | Pa_simple_get_latency pointer

text \<open>
  The library object that \<open>ctypes.CDLL\<close> returns. Only what the module changes on it is
  kept: the result type of \<open>pa_simple_new\<close>, and what the attribute
  \<open>pa_simple_get_latency\<close> is bound to. On a fresh object every function has the
  default result type \<open>c_int\<close>, and \<open>pa_simple_get_latency\<close> is the foreign function.
  The shared object that loads is taken to export the functions of the simple API.
\<close>

datatype restype = C_int | C_void_p

datatype lib_attr = Foreign_function | C_ulonglong_class

record cdll =
  pa_simple_new_restype :: restype
  pa_simple_get_latency :: lib_attr

definition CDLL_object :: cdll where
  "CDLL_object = \<lparr>pa_simple_new_restype = C_int, pa_simple_get_latency = Foreign_function\<rparr>"

text \<open>
  The native side is a parameter. \<open>dlopen k\<close> is the outcome of the \<open>k\<close>-th attempt to
  load the shared object; every native function answers as a function of the calls made
  before it and of its arguments. A function with an error out-parameter answers with its
  return value and the value the error cell holds afterwards (the caller puts 0 there).
  \<open>native_read\<close> also answers with the bytes it stored at the start of the buffer.
  \<open>allocates cs n\<close> tells whether, after the calls \<open>cs\<close>, the Python runtime obtains
  the memory for a buffer of \<open>n\<close> bytes.
\<close>

datatype load_outcome = Loaded | OSError string

record native =
  dlopen :: "nat \<Rightarrow> load_outcome"
  native_new :: "native_call list \<Rightarrow> new_args \<Rightarrow> 64 word \<times> int"
  native_read :: "native_call list \<Rightarrow> pointer \<Rightarrow> int \<Rightarrow> int \<times> int \<times> byte list"
  native_write :: "native_call list \<Rightarrow> pointer \<Rightarrow> byte list \<Rightarrow> int \<Rightarrow> int \<times> int"
  native_drain :: "native_call list \<Rightarrow> pointer \<Rightarrow> int \<times> int"
  native_flush :: "native_call list \<Rightarrow> pointer \<Rightarrow> int \<times> int"
  native_get_latency :: "native_call list \<Rightarrow> pointer \<Rightarrow> int \<times> int"
  allocates :: "native_call list \<Rightarrow> int \<Rightarrow> bool"

text \<open>
  The process state outside any stream object: the module global \<open>_libpulse_simple\<close>,
  the number of load attempts made, and the native calls issued so far.
\<close>

record world =
  libpulse_simple :: "cdll option"
  load_attempts :: nat
  calls :: "native_call list"

definition initial_world :: world where
  "initial_world = \<lparr>libpulse_simple = None, load_attempts = 0, calls = []\<rparr>"

definition issue :: "native_call \<Rightarrow> world \<Rightarrow> world" where
  "issue c w = w\<lparr>calls := calls w @ [c]\<rparr>"

definition os_error_message :: "string \<Rightarrow> string" where
  "os_error_message err =
     ''<class '' @ [CHR 0x27] @ ''OSError'' @ [CHR 0x27] @ ''>: '' @ err"

definition get_libpulse_simple :: "native \<Rightarrow> world \<Rightarrow> (error + cdll) \<times> world" where
  "get_libpulse_simple N w =
     (case libpulse_simple w of
        None \<Rightarrow>
          (case dlopen N (load_attempts w) of
             OSError err \<Rightarrow>
               (Inl (PaSimpleError (os_error_message err)),
                w\<lparr>load_attempts := Suc (load_attempts w)\<rparr>)
           | Loaded \<Rightarrow>
               (let lib = CDLL_object\<lparr>pa_simple_new_restype := C_void_p,
                                      pa_simple_get_latency := C_ulonglong_class\<rparr>
                in (Inr lib,
                    w\<lparr>libpulse_simple := Some lib, load_attempts := Suc (load_attempts w)\<rparr>)))
      | Some lib \<Rightarrow> (Inr lib, w))"

text \<open>What Python receives from a foreign function that returns a pointer.\<close>

definition returned_pointer :: "restype \<Rightarrow> 64 word \<Rightarrow> pointer" where
  "returned_pointer rt p =
     (case rt of
        C_void_p \<Rightarrow> (if p = 0 then None else Some (uint p))
      | C_int \<Rightarrow> Some (sint (ucast p :: 32 word)))"

text \<open>
  A ctypes \<open>c_int\<close> object defines no comparison of its own, so \<open>error != 0\<close> compares
  an object with an integer by identity and is true whatever the cell holds.
\<close>

definition c_int_ne :: "int \<Rightarrow> int \<Rightarrow> bool" where
  "c_int_ne cell_value i = True"

section \<open>The stream class \<open>PaSimple\<close>\<close>

text \<open>The attributes of a \<open>PaSimple\<close> object (\<open>self._direction\<close> and so on).\<close>

record pa_simple =
  self_direction :: int
  self_format :: int
  self_channels :: int
  self_rate :: int
  self_stream_alive :: bool
  self_stream :: pointer

text \<open>The keyword arguments of the constructor, with the defaults of its signature.\<close>

record kwargs =
  kw_app_name :: string
  kw_stream_name :: "string option"
  kw_server_name :: "string option"
  kw_device_name :: "string option"
  kw_maxlength :: int
  kw_tlength :: int
  kw_prebuf :: int
  kw_minreq :: int
  kw_fragsize :: int

definition default_kwargs :: kwargs where
  "default_kwargs =
     \<lparr>kw_app_name = ''python'', kw_stream_name = None, kw_server_name = None,
      kw_device_name = None, kw_maxlength = - 1, kw_tlength = - 1, kw_prebuf = - 1,
      kw_minreq = - 1, kw_fragsize = - 1\<rparr>"

text \<open>The arguments the constructor prepares for the native open call.\<close>

definition open_args :: "int \<Rightarrow> int \<Rightarrow> int \<Rightarrow> int \<Rightarrow> kwargs \<Rightarrow> new_args" where
  "open_args dir fmt chans rt kw =
     (let stream_name = (case kw_stream_name kw of None \<Rightarrow> kw_app_name kw | Some n \<Rightarrow> n);
          sample_spec = pa_sample_spec_of fmt rt chans;
          buffer_attr = pa_buffer_attr_of (kw_maxlength kw) (kw_tlength kw) (kw_prebuf kw)
                          (kw_minreq kw) (kw_fragsize kw)
      in \<lparr>arg_server_name = kw_server_name kw,
          arg_app_name = kw_app_name kw,
          arg_direction = as_c_int dir,
          arg_device_name = kw_device_name kw,
          arg_stream_name = stream_name,
          arg_sample_spec = sample_spec,
          arg_buffer_attr = buffer_attr\<rparr>)"

text \<open>
  \<open>PaSimple(direction, format, channels, rate, ...)\<close>: the constructor either raises or
  returns the new object. The object exists with \<open>_stream_alive = False\<close> while the
  native call runs, and the caller receives it only when the call returned a stream.
\<close>

definition PaSimple ::
  "native \<Rightarrow> world \<Rightarrow> int \<Rightarrow> int \<Rightarrow> int \<Rightarrow> int \<Rightarrow> kwargs \<Rightarrow> (error + pa_simple) \<times> world" where
  "PaSimple N w dir fmt chans rt kw =
     (let self = \<lparr>self_direction = dir, self_format = fmt, self_channels = chans,
                  self_rate = rt, self_stream_alive = False, self_stream = None\<rparr>;
          args = open_args dir fmt chans rt kw
      in case get_libpulse_simple N w of
           (Inl e, w') \<Rightarrow> (Inl e, w')
         | (Inr lib, w') \<Rightarrow>
             (case native_new N (calls w') args of
                (p, err) \<Rightarrow>
                  (case returned_pointer (pa_simple_new_restype lib) p of
                     None \<Rightarrow>
                       (Inl (PaSimpleError (''Error while creating stream: '' @ str_int err)),
                        issue (Pa_simple_new args) w')
                   | Some h \<Rightarrow>
                       (Inr (self\<lparr>self_stream := Some h, self_stream_alive := True\<rparr>),
                        issue (Pa_simple_new args) w'))))"

text \<open>
  Every method takes the object and the world and returns what it raised or returned,
  the object and the world. The data given to \<open>write\<close> is a \<open>bytes\<close> object.
\<close>

definition close :: "native \<Rightarrow> pa_simple \<Rightarrow> world \<Rightarrow> (error + unit) \<times> pa_simple \<times> world" where
  "close N self w =
     (if self_stream_alive self then
        (let self' = self\<lparr>self_stream_alive := False\<rparr>
         in case get_libpulse_simple N w of
              (Inl e, w') \<Rightarrow> (Inl e, self', w')
            | (Inr lib, w') \<Rightarrow> (Inr (), self', issue (Pa_simple_free (self_stream self')) w'))
      else (Inr (), self, w))"

definition direction :: "pa_simple \<Rightarrow> int" where
  "direction self = self_direction self"

definition format :: "pa_simple \<Rightarrow> int" where
  "format self = self_format self"

definition channels :: "pa_simple \<Rightarrow> int" where
  "channels self = self_channels self"

definition rate :: "pa_simple \<Rightarrow> int" where
  "rate self = self_rate self"

text \<open>
  \<open>bytearray(n)\<close> converts \<open>n\<close> to a signed 64-bit size first (\<open>OverflowError\<close>
  when it does not fit), rejects a negative size, and raises \<open>MemoryError\<close> when the
  memory is not granted; otherwise it is \<open>n\<close> zero bytes.
\<close>

definition bytearray :: "bool \<Rightarrow> int \<Rightarrow> error + byte list" where
  "bytearray granted n =
     (if n < - (2 ^ 63) \<or> 2 ^ 63 \<le> n then
        Inl (OverflowError
               (''cannot fit '' @ CHR 0x27 # ''int'' @ CHR 0x27 # '' into an index-sized integer''))
      else if n < 0 then Inl (ValueError ''negative count'')
      else if \<not> granted then Inl MemoryError
      else Inr (replicate (nat n) 0))"

text \<open>
  The record buffer is a \<open>bytearray\<close> of \<open>num_bytes\<close> zero bytes that the native call
  writes into through a ctypes array of the same length; its length cannot change. The
  native call receives the length as a C \<open>int\<close>.
\<close>

definition stored :: "byte list \<Rightarrow> byte list \<Rightarrow> byte list" where
  "stored buf written = take (length buf) written @ drop (length written) buf"

definition read ::
  "native \<Rightarrow> pa_simple \<Rightarrow> world \<Rightarrow> int \<Rightarrow> (error + byte list) \<times> pa_simple \<times> world" where
  "read N self w num_bytes =
     (if \<not> self_stream_alive self then
        (Inl (PaSimpleError ''Cannot perform operation on closed stream''), self, w)
      else if self_direction self \<noteq> PA_STREAM_RECORD then
        (Inl (PaSimpleError ''Stream was not initialized for recording''), self, w)
      else
        (case bytearray (allocates N (calls w) num_bytes) num_bytes of
           Inl e \<Rightarrow> (Inl e, self, w)
         | Inr rec_buffer \<Rightarrow>
             (case get_libpulse_simple N w of
                (Inl e, w') \<Rightarrow> (Inl e, self, w')
              | (Inr lib, w') \<Rightarrow>
                  (case native_read N (calls w') (self_stream self) (as_c_int num_bytes) of
                     (ok, err, written) \<Rightarrow>
                       (if ok \<noteq> 0 then
                          (Inl (PaSimpleError
                                  (''Could not record audio, error code: '' @ str_int err)),
                           self,
                           issue (Pa_simple_read (self_stream self) (as_c_int num_bytes)) w')
                        else
                          (Inr (stored rec_buffer written),
                           self,
                           issue (Pa_simple_read (self_stream self) (as_c_int num_bytes))
                             w'))))))"

definition "write" ::
  "native \<Rightarrow> pa_simple \<Rightarrow> world \<Rightarrow> byte list \<Rightarrow> (error + unit) \<times> pa_simple \<times> world" where
  "write N self w data =
     (if \<not> self_stream_alive self then
        (Inl (PaSimpleError ''Cannot perform operation on closed stream''), self, w)
      else if self_direction self \<noteq> PA_STREAM_PLAYBACK then
        (Inl (PaSimpleError ''Stream was not initialized for playback''), self, w)
      else
        (case get_libpulse_simple N w of
           (Inl e, w') \<Rightarrow> (Inl e, self, w')
         | (Inr lib, w') \<Rightarrow>
             (case native_write N (calls w') (self_stream self) data
                     (as_c_int (int (length data))) of
                (ok, err) \<Rightarrow>
                  (if ok \<noteq> 0 then
                     (Inl (PaSimpleError (''Could not play audio, error code: '' @ str_int err)),
                      self,
                      issue (Pa_simple_write (self_stream self) data
                               (as_c_int (int (length data)))) w')
                   else
                     (Inr (), self,
                      issue (Pa_simple_write (self_stream self) data
                               (as_c_int (int (length data)))) w')))))"

definition drain :: "native \<Rightarrow> pa_simple \<Rightarrow> world \<Rightarrow> (error + unit) \<times> pa_simple \<times> world" where
  "drain N self w =
     (if \<not> self_stream_alive self then
        (Inl (PaSimpleError ''Cannot perform operation on closed stream''), self, w)
      else if self_direction self \<noteq> PA_STREAM_PLAYBACK then
        (Inl (PaSimpleError ''Stream was not initialized for playback''), self, w)
      else
        (case get_libpulse_simple N w of
           (Inl e, w') \<Rightarrow> (Inl e, self, w')
         | (Inr lib, w') \<Rightarrow>
             (case native_drain N (calls w') (self_stream self) of
                (ok, err) \<Rightarrow>
                  (if ok \<noteq> 0 then
                     (Inl (PaSimpleError (''Could not drain, error code: '' @ str_int err)),
                      self, issue (Pa_simple_drain (self_stream self)) w')
                   else (Inr (), self, issue (Pa_simple_drain (self_stream self)) w')))))"

definition flush :: "native \<Rightarrow> pa_simple \<Rightarrow> world \<Rightarrow> (error + unit) \<times> pa_simple \<times> world" where
  "flush N self w =
     (if \<not> self_stream_alive self then
        (Inl (PaSimpleError ''Cannot perform operation on closed stream''), self, w)
      else
        (case get_libpulse_simple N w of
           (Inl e, w') \<Rightarrow> (Inl e, self, w')
         | (Inr lib, w') \<Rightarrow>
             (case native_flush N (calls w') (self_stream self) of
                (ok, err) \<Rightarrow>
                  (if ok \<noteq> 0 then
                     (Inl (PaSimpleError (''Could not flush, error code: '' @ str_int err)),
                      self, issue (Pa_simple_flush (self_stream self)) w')
                   else (Inr (), self, issue (Pa_simple_flush (self_stream self)) w')))))"

text \<open>
  \<open>get_latency\<close> calls whatever the attribute \<open>pa_simple_get_latency\<close> of the library
  object is bound to, with two positional arguments. Bound to the class \<open>c_ulonglong\<close>,
  the call is the construction of a \<open>c_ulonglong\<close> object, which takes at most one
  argument and raises \<open>TypeError\<close>. Bound to the foreign function, the call reaches the
  native library and returns a Python integer (the default result type), on which
  \<open>latency.value\<close> would raise \<open>AttributeError\<close>.
\<close>

definition get_latency :: "native \<Rightarrow> pa_simple \<Rightarrow> world \<Rightarrow> (error + int) \<times> pa_simple \<times> world" where
  "get_latency N self w =
     (if \<not> self_stream_alive self then
        (Inl (PaSimpleError ''Cannot perform operation on closed stream''), self, w)
      else
        (case get_libpulse_simple N w of
           (Inl e, w') \<Rightarrow> (Inl e, self, w')
         | (Inr lib, w') \<Rightarrow>
             (case pa_simple_get_latency lib of
                C_ulonglong_class \<Rightarrow>
                  (Inl (TypeError ''__init__ expected at most 1 argument, got 2''), self, w')
              | Foreign_function \<Rightarrow>
                  (case native_get_latency N (calls w') (self_stream self) of
                     (latency, err) \<Rightarrow>
                       (if c_int_ne err 0 then
                          (Inl (PaSimpleError
                                  (''Could not get latency, error code: '' @ str_int err)),
                           self, issue (Pa_simple_get_latency (self_stream self)) w')
                        else
                          (Inl (AttributeError
                                  (CHR 0x27 # ''int'' @ CHR 0x27 # '' object has no attribute ''
                                   @ CHR 0x27 # ''value'' @ [CHR 0x27])),
                           self, issue (Pa_simple_get_latency (self_stream self)) w'))))))"

section \<open>Programs over one stream\<close>

text \<open>
  A caller's use of one stream is a list of method calls, each of which returns or raises;
  the caller goes on after an exception. \<open>run\<close> gives the outcome of every call and the
  final object and world.
\<close>

datatype op = Read int | Write "byte list" | Drain | Flush | Get_latency | Close

datatype retval = Ret_none | Ret_bytes "byte list" | Ret_int int

fun step ::
  "native \<Rightarrow> op \<Rightarrow> pa_simple \<times> world \<Rightarrow> (error + retval) \<times> pa_simple \<times> world" where
  "step N (Read n) (self, w) = apfst (map_sum id Ret_bytes) (read N self w n)"
| "step N (Write data) (self, w) = apfst (map_sum id (\<lambda>_. Ret_none)) (write N self w data)"
| "step N Drain (self, w) = apfst (map_sum id (\<lambda>_. Ret_none)) (drain N self w)"
| "step N Flush (self, w) = apfst (map_sum id (\<lambda>_. Ret_none)) (flush N self w)"
| "step N Get_latency (self, w) = apfst (map_sum id Ret_int) (get_latency N self w)"
| "step N Close (self, w) = apfst (map_sum id (\<lambda>_. Ret_none)) (close N self w)"

fun run ::
  "native \<Rightarrow> op list \<Rightarrow> pa_simple \<times> world \<Rightarrow> (error + retval) list \<times> pa_simple \<times> world" where
  "run N [] st = ([], st)"
| "run N (x # xs) st =
     (case step N x st of
        (r, st') \<Rightarrow> (case run N xs st' of (rs, st'') \<Rightarrow> (r # rs, st'')))"

text \<open>The \<open>pa_simple_free\<close> calls among a list of native calls.\<close>

fun is_free :: "native_call \<Rightarrow> bool" where
  "is_free (Pa_simple_free h) = True"
| "is_free _ = False"

text \<open>
  A native side for the examples: the first load attempt fails and the later ones
  succeed; \<open>pa_simple_new\<close> returns the address 4096; every call reports success;
  \<open>pa_simple_read\<close> stores the requested number of bytes, each 42; the latency the
  server would report is 20000 microseconds; every buffer is granted.
\<close>

definition fake_native :: native where
  "fake_native =
     \<lparr>dlopen = (\<lambda>k. if k = 0 then OSError ''libpulse-simple.so.0: cannot open'' else Loaded),
      native_new = (\<lambda>cs args. (4096, 0)),
      native_read = (\<lambda>cs h n. (0, 0, replicate (nat n) 42)),
      native_write = (\<lambda>cs h data n. (0, 0)),
      native_drain = (\<lambda>cs h. (0, 0)),
      native_flush = (\<lambda>cs h. (0, 0)),
      native_get_latency = (\<lambda>cs h. (20000, 0)),
      allocates = (\<lambda>cs n. True)\<rparr>"

text \<open>The world once the library has been loaded by \<open>get_libpulse_simple\<close>.\<close>

definition loaded_lib :: cdll where
  "loaded_lib = \<lparr>pa_simple_new_restype = C_void_p, pa_simple_get_latency = C_ulonglong_class\<rparr>"

definition loaded_world :: world where
  "loaded_world = \<lparr>libpulse_simple = Some loaded_lib, load_attempts = 2, calls = []\<rparr>"

text \<open>
  The streams the constructor returns on this native side, in the world where the library
  is loaded, and the worlds it leaves.
\<close>

definition playback_stream :: pa_simple where
  "playback_stream =
     \<lparr>self_direction = PA_STREAM_PLAYBACK, self_format = PA_SAMPLE_S16LE, self_channels = 2,
      self_rate = 44100, self_stream_alive = True, self_stream = Some 4096\<rparr>"

definition playback_world :: world where
  "playback_world =
     issue (Pa_simple_new (open_args PA_STREAM_PLAYBACK PA_SAMPLE_S16LE 2 44100 default_kwargs))
       loaded_world"

definition record_stream :: pa_simple where
  "record_stream =
     \<lparr>self_direction = PA_STREAM_RECORD, self_format = PA_SAMPLE_S32LE, self_channels = 1,
      self_rate = 44100, self_stream_alive = True, self_stream = Some 4096\<rparr>"

definition record_world :: world where
  "record_world =
     issue (Pa_simple_new (open_args PA_STREAM_RECORD PA_SAMPLE_S32LE 1 44100 default_kwargs))
       loaded_world"

text \<open>A native side on which every transfer fails with the error code 3.\<close>

definition failing_native :: native where
  "failing_native =
     fake_native
       \<lparr>native_read := (\<lambda>cs h n. (- 1, 3, [])),
        native_write := (\<lambda>cs h data n. (- 1, 3)),
        native_drain := (\<lambda>cs h. (- 1, 3)),
        native_flush := (\<lambda>cs h. (- 1, 3))\<rparr>"

text \<open>The same native side in a process that has no memory left for a buffer.\<close>

definition exhausted_native :: native where
  "exhausted_native = fake_native\<lparr>allocates := (\<lambda>cs n. False)\<rparr>"

section \<open>Properties of the format catalog\<close>

text \<open>
  Claim C6. The module defines thirteen distinct sample formats, and \<open>format2width\<close>
  returns a width for each of them (it never raises on them); \<open>width2format\<close> maps
  1, 2, 3, 4 to \<open>PA_SAMPLE_U8\<close>, \<open>PA_SAMPLE_S16LE\<close>, \<open>PA_SAMPLE_S24LE\<close>,
  \<open>PA_SAMPLE_S32LE\<close>; and for every width \<open>w\<close> in \<open>{1,2,3,4}\<close>, \<open>format2width (width2format w)\<close> is \<open>w\<close>.
\<close>

theorem format_catalog_roundtrip:
  "length sample_formats = 13 \<and> distinct sample_formats
   \<and> (\<forall>f \<in> set sample_formats. \<exists>w \<in> {1, 2, 3, 4}. format2width f = Inr w)
   \<and> width2format 1 = Inr PA_SAMPLE_U8
   \<and> width2format 2 = Inr PA_SAMPLE_S16LE
   \<and> width2format 3 = Inr PA_SAMPLE_S24LE
   \<and> width2format 4 = Inr PA_SAMPLE_S32LE
   \<and> (\<forall>w \<in> {1, 2, 3, 4}.
        case width2format w of Inl e \<Rightarrow> False | Inr f \<Rightarrow> format2width f = Inr w)"
  by (simp add: sample_formats_def width2format_def format2width_def subscript_def
      LOOKUP_FORMAT_BY_WIDTH_def LOOKUP_WIDTH_BY_FORMAT_def PA_SAMPLE_defs)

theorem format_catalog_roundtrip_witness:
  "PA_SAMPLE_S24_32BE \<in> set sample_formats
   \<and> format2width PA_SAMPLE_S24_32BE = Inr 4
   \<and> width2format 3 = Inr PA_SAMPLE_S24LE
   \<and> format2width PA_SAMPLE_S24LE = Inr 3"
proof -
  have mem: "PA_SAMPLE_S24_32BE \<in> set sample_formats"
    by (simp add: sample_formats_def)
  have three: "(3::int) \<in> {1, 2, 3, 4}"
    by simp
  from format_catalog_roundtrip mem
  obtain w where "w \<in> {1, 2, 3, 4}" "format2width PA_SAMPLE_S24_32BE = Inr w"
    by blast
  moreover from format_catalog_roundtrip three
  have "case width2format 3 of Inl e \<Rightarrow> False | Inr f \<Rightarrow> format2width f = Inr 3"
    by blast
  moreover from format_catalog_roundtrip have "width2format 3 = Inr PA_SAMPLE_S24LE"
    by blast
  ultimately show ?thesis
    using mem
    by (auto simp: format2width_def subscript_def LOOKUP_WIDTH_BY_FORMAT_def PA_SAMPLE_defs)
qed

text \<open>
  Claim C7. For every width \<open>w\<close> outside \<open>{1,2,3,4}\<close>, \<open>width2format w\<close> raises (the
  dict lookup's \<open>KeyError\<close>, carrying the unsupported width) and returns no format.
\<close>

theorem width2format_unsupported:
  "w \<notin> {1, 2, 3, 4} \<Longrightarrow> width2format w = Inl (KeyError w)"
  by (simp add: width2format_def subscript_def LOOKUP_FORMAT_BY_WIDTH_def)

theorem width2format_unsupported_witness:
  "(5::int) \<notin> {1, 2, 3, 4} \<and> width2format 5 = Inl (KeyError 5)
   \<and> (0::int) \<notin> {1, 2, 3, 4} \<and> width2format 0 = Inl (KeyError 0)"
  using width2format_unsupported [of 5] width2format_unsupported [of 0]
  by simp

section \<open>Frame lemmas for the stream methods\<close>

lemma get_libpulse_simple_loaded:
  "libpulse_simple w = Some lib \<Longrightarrow> get_libpulse_simple N w = (Inr lib, w)"
  by (simp add: get_libpulse_simple_def)

lemma get_libpulse_simple_Inr:
  "get_libpulse_simple N w = (Inr lib, w') \<Longrightarrow> libpulse_simple w' = Some lib \<and> calls w' = calls w"
  by (auto simp: get_libpulse_simple_def Let_def split: option.splits load_outcome.splits)

lemma issue_simps:
  "libpulse_simple (issue c w) = libpulse_simple w"
  "load_attempts (issue c w) = load_attempts w"
  "calls (issue c w) = calls w @ [c]"
  by (simp_all add: issue_def)

lemma read_open:
  "self_stream_alive self \<Longrightarrow> libpulse_simple w = Some lib \<Longrightarrow>
   snd (read N self w n) = (self, w) \<or>
   snd (read N self w n) = (self, issue (Pa_simple_read (self_stream self) (as_c_int n)) w)"
  by (simp add: read_def get_libpulse_simple_loaded bytearray_def split: prod.splits)

lemma write_open:
  "self_stream_alive self \<Longrightarrow> libpulse_simple w = Some lib \<Longrightarrow>
   snd (write N self w d) = (self, w) \<or>
   snd (write N self w d) =
     (self, issue (Pa_simple_write (self_stream self) d (as_c_int (int (length d)))) w)"
  by (simp add: write_def get_libpulse_simple_loaded split: prod.splits)

lemma drain_open:
  "self_stream_alive self \<Longrightarrow> libpulse_simple w = Some lib \<Longrightarrow>
   snd (drain N self w) = (self, w) \<or>
   snd (drain N self w) = (self, issue (Pa_simple_drain (self_stream self)) w)"
  by (simp add: drain_def get_libpulse_simple_loaded split: prod.splits)

lemma flush_open:
  "self_stream_alive self \<Longrightarrow> libpulse_simple w = Some lib \<Longrightarrow>
   snd (flush N self w) = (self, issue (Pa_simple_flush (self_stream self)) w)"
  by (simp add: flush_def get_libpulse_simple_loaded split: prod.splits)

lemma get_latency_open:
  "self_stream_alive self \<Longrightarrow> libpulse_simple w = Some lib \<Longrightarrow>
   snd (get_latency N self w) = (self, w) \<or>
   snd (get_latency N self w) = (self, issue (Pa_simple_get_latency (self_stream self)) w)"
  by (simp add: get_latency_def get_libpulse_simple_loaded split: prod.splits lib_attr.splits)

lemma close_open:
  "self_stream_alive self \<Longrightarrow> libpulse_simple w = Some lib \<Longrightarrow>
   close N self w = (Inr (), self\<lparr>self_stream_alive := False\<rparr>,
                     issue (Pa_simple_free (self_stream self)) w)"
  by (simp add: close_def get_libpulse_simple_loaded)

lemma PaSimple_open:
  assumes "PaSimple N w0 d f c r kw = (Inr self, w)"
  shows "self_stream_alive self" and "libpulse_simple w \<noteq> None"
    and "self_direction self = d" and "self_format self = f"
    and "self_channels self = c" and "self_rate self = r"
    and "self_stream self \<noteq> None"
    and "calls w = calls w0 @ [Pa_simple_new (open_args d f c r kw)]"
proof -
  obtain lib w1 where g: "get_libpulse_simple N w0 = (Inr lib, w1)"
    using assms by (cases "get_libpulse_simple N w0")
      (auto simp: PaSimple_def Let_def split: sum.splits)
  obtain p err where n: "native_new N (calls w1) (open_args d f c r kw) = (p, err)"
    by (cases "native_new N (calls w1) (open_args d f c r kw)")
  obtain h where h: "returned_pointer (pa_simple_new_restype lib) p = Some h"
    using assms g n by (auto simp: PaSimple_def Let_def split: option.splits)
  have self: "self = \<lparr>self_direction = d, self_format = f, self_channels = c,
                  self_rate = r, self_stream_alive = True, self_stream = Some h\<rparr>"
    and w: "w = issue (Pa_simple_new (open_args d f c r kw)) w1"
    using assms g n h by (simp_all add: PaSimple_def Let_def)
  from get_libpulse_simple_Inr [OF g] have w1: "libpulse_simple w1 = Some lib" "calls w1 = calls w0"
    by simp_all
  show "self_stream_alive self" "self_direction self = d" "self_format self = f"
    "self_channels self = c" "self_rate self = r" "self_stream self \<noteq> None"
    by (simp_all add: self)
  show "libpulse_simple w \<noteq> None" "calls w = calls w0 @ [Pa_simple_new (open_args d f c r kw)]"
    by (simp_all add: w w1 issue_simps)
qed

lemma step_closed:
  "\<not> self_stream_alive self \<Longrightarrow>
   step N x (self, w) =
     (if x = Close then Inr Ret_none
      else Inl (PaSimpleError ''Cannot perform operation on closed stream''), self, w)"
  by (cases x) (simp_all add: read_def write_def drain_def flush_def get_latency_def close_def)

lemma snd_apfst: "snd (apfst f p) = snd p"
  by (cases p) simp

lemma step_frame:
  assumes "libpulse_simple w = Some lib"
  shows "\<exists>ys. snd (step N x (self, w)) =
           (self\<lparr>self_stream_alive := self_stream_alive self \<and> x \<noteq> Close\<rparr>,
            w\<lparr>calls := calls w @ ys\<rparr>)
         \<and> filter is_free ys =
             (if self_stream_alive self \<and> x = Close then [Pa_simple_free (self_stream self)]
              else [])"
proof (cases "self_stream_alive self")
  case False
  then have "snd (step N x (self, w)) =
      (self\<lparr>self_stream_alive := self_stream_alive self \<and> x \<noteq> Close\<rparr>, w\<lparr>calls := calls w @ []\<rparr>)"
    by (simp add: step_closed)
  with False show ?thesis by (intro exI [of _ "[]"]) simp
next
  case True
  show ?thesis
  proof (cases x)
    case (Read n)
    from read_open [OF True assms, of N n] show ?thesis
    proof
      assume "snd (read N self w n) = (self, w)"
      then show ?thesis using True Read
        by (intro exI [of _ "[]"]) (simp add: snd_apfst)
    next
      assume "snd (read N self w n) =
        (self, issue (Pa_simple_read (self_stream self) (as_c_int n)) w)"
      then show ?thesis using True Read
        by (intro exI [of _ "[Pa_simple_read (self_stream self) (as_c_int n)]"])
          (simp add: snd_apfst issue_def)
    qed
  next
    case (Write d)
    from write_open [OF True assms, of N d] show ?thesis
    proof
      assume "snd (write N self w d) = (self, w)"
      then show ?thesis using True Write
        by (intro exI [of _ "[]"]) (simp add: snd_apfst)
    next
      assume "snd (write N self w d) =
        (self, issue (Pa_simple_write (self_stream self) d (as_c_int (int (length d)))) w)"
      then show ?thesis using True Write
        by (intro exI [of _ "[Pa_simple_write (self_stream self) d
            (as_c_int (int (length d)))]"])
          (simp add: snd_apfst issue_def)
    qed
  next
    case Drain
    from drain_open [OF True assms, of N] show ?thesis
    proof
      assume "snd (drain N self w) = (self, w)"
      then show ?thesis using True Drain
        by (intro exI [of _ "[]"]) (simp add: snd_apfst)
    next
      assume "snd (drain N self w) = (self, issue (Pa_simple_drain (self_stream self)) w)"
      then show ?thesis using True Drain
        by (intro exI [of _ "[Pa_simple_drain (self_stream self)]"])
          (simp add: snd_apfst issue_def)
    qed
  next
    case Flush
    from flush_open [OF True assms, of N] show ?thesis using True Flush
      by (intro exI [of _ "[Pa_simple_flush (self_stream self)]"])
        (simp add: snd_apfst issue_def)
  next
    case Get_latency
    from get_latency_open [OF True assms, of N] show ?thesis
    proof
      assume "snd (get_latency N self w) = (self, w)"
      then show ?thesis using True Get_latency
        by (intro exI [of _ "[]"]) (simp add: snd_apfst)
    next
      assume "snd (get_latency N self w) =
        (self, issue (Pa_simple_get_latency (self_stream self)) w)"
      then show ?thesis using True Get_latency
        by (intro exI [of _ "[Pa_simple_get_latency (self_stream self)]"])
          (simp add: snd_apfst issue_def)
    qed
  next
    case Close
    from close_open [OF True assms, of N] show ?thesis using True Close
      by (intro exI [of _ "[Pa_simple_free (self_stream self)]"])
        (simp add: issue_def)
  qed
qed




lemma run_frame:
  assumes "libpulse_simple w = Some lib"
  shows "\<exists>ys. snd (run N xs (self, w)) =
           (self\<lparr>self_stream_alive := self_stream_alive self \<and> Close \<notin> set xs\<rparr>,
            w\<lparr>calls := calls w @ ys\<rparr>)
         \<and> filter is_free ys =
             (if self_stream_alive self \<and> Close \<in> set xs then [Pa_simple_free (self_stream self)]
              else [])"
  using assms
proof (induction xs arbitrary: self w)
  case Nil
  show ?case by (intro exI [of _ "[]"]) simp
next
  case (Cons x xs)
  let ?self1 = "self\<lparr>self_stream_alive := self_stream_alive self \<and> x \<noteq> Close\<rparr>"
  from step_frame [OF Cons.prems, of N x self]
  obtain ys1 where s1: "snd (step N x (self, w)) = (?self1, w\<lparr>calls := calls w @ ys1\<rparr>)"
    and f1: "filter is_free ys1 =
      (if self_stream_alive self \<and> x = Close then [Pa_simple_free (self_stream self)] else [])"
    by blast
  let ?w1 = "w\<lparr>calls := calls w @ ys1\<rparr>"
  have "libpulse_simple ?w1 = Some lib" using Cons.prems by simp
  from Cons.IH [OF this, of ?self1]
  obtain ys2 where s2: "snd (run N xs (?self1, ?w1)) =
      (?self1\<lparr>self_stream_alive := self_stream_alive ?self1 \<and> Close \<notin> set xs\<rparr>,
       ?w1\<lparr>calls := calls ?w1 @ ys2\<rparr>)"
    and f2: "filter is_free ys2 =
      (if self_stream_alive ?self1 \<and> Close \<in> set xs then [Pa_simple_free (self_stream ?self1)]
       else [])"
    by blast
  obtain r where st: "step N x (self, w) = (r, ?self1, ?w1)"
    using s1 by (cases "step N x (self, w)") simp
  have "snd (run N (x # xs) (self, w)) = snd (run N xs (?self1, ?w1))"
    by (simp add: st split: prod.splits)
  moreover have "(self_stream_alive self \<and> Close \<notin> set (x # xs)) =
      ((self_stream_alive self \<and> x \<noteq> Close) \<and> Close \<notin> set xs)"
    by auto
  ultimately have "snd (run N (x # xs) (self, w)) =
      (self\<lparr>self_stream_alive := self_stream_alive self \<and> Close \<notin> set (x # xs)\<rparr>,
       w\<lparr>calls := calls w @ (ys1 @ ys2)\<rparr>)"
    using s2 by simp
  moreover have "filter is_free (ys1 @ ys2) =
      (if self_stream_alive self \<and> Close \<in> set (x # xs) then [Pa_simple_free (self_stream self)]
       else [])"
    using f1 f2 by auto
  ultimately show ?case by blast
qed


section \<open>The example streams\<close>

lemma playback_constructed:
  "PaSimple fake_native loaded_world PA_STREAM_PLAYBACK PA_SAMPLE_S16LE 2 44100 default_kwargs
   = (Inr playback_stream, playback_world)"
  by (simp add: PaSimple_def get_libpulse_simple_def loaded_world_def fake_native_def
      returned_pointer_def loaded_lib_def playback_stream_def playback_world_def)

lemma record_constructed:
  "PaSimple fake_native loaded_world PA_STREAM_RECORD PA_SAMPLE_S32LE 1 44100 default_kwargs
   = (Inr record_stream, record_world)"
  by (simp add: PaSimple_def get_libpulse_simple_def loaded_world_def fake_native_def
      returned_pointer_def loaded_lib_def record_stream_def record_world_def)

lemma example_worlds_loaded:
  "libpulse_simple playback_world = Some loaded_lib"
  "libpulse_simple record_world = Some loaded_lib"
  by (simp_all add: playback_world_def record_world_def loaded_world_def issue_simps)

lemma playback_lifetime:
  "run fake_native [Write [1, 2], Close, Flush, Close] (playback_stream, playback_world) =
     ([Inr Ret_none, Inr Ret_none,
       Inl (PaSimpleError ''Cannot perform operation on closed stream''), Inr Ret_none],
      playback_stream\<lparr>self_stream_alive := False\<rparr>,
      issue (Pa_simple_free (Some 4096))
        (issue (Pa_simple_write (Some 4096) [1, 2] 2) playback_world))"
  by (simp add: write_def close_def flush_def get_libpulse_simple_loaded
      example_worlds_loaded issue_simps playback_stream_def PA_STREAM_PLAYBACK_def
      fake_native_def as_c_int_def)

section \<open>Lifecycle of a stream\<close>




section \<open>Misuse errors\<close>

lemma get_libpulse_simple_Inl:
  "get_libpulse_simple N w = (Inl e, w') \<Longrightarrow> \<exists>err. e = PaSimpleError (os_error_message err)"
  by (auto simp: get_libpulse_simple_def Let_def split: option.splits load_outcome.splits)

lemma os_error_message_not_misuse:
  "os_error_message err \<noteq> ''Cannot perform operation on closed stream''"
  "os_error_message err \<noteq> ''Stream was not initialized for playback''"
  "os_error_message err \<noteq> ''Stream was not initialized for recording''"
  by (simp_all add: os_error_message_def)

lemma read_misuse:
  assumes "fst (read N self w n) = Inl (PaSimpleError m)"
    and "m = ''Cannot perform operation on closed stream'' \<or>
         m = ''Stream was not initialized for playback'' \<or>
         m = ''Stream was not initialized for recording''"
  shows "snd (read N self w n) = (self, w)"
  using assms
  by (auto simp: read_def os_error_message_not_misuse bytearray_def
      split: if_splits prod.splits sum.splits dest!: get_libpulse_simple_Inl)

lemma write_misuse:
  assumes "fst (write N self w d) = Inl (PaSimpleError m)"
    and "m = ''Cannot perform operation on closed stream'' \<or>
         m = ''Stream was not initialized for playback'' \<or>
         m = ''Stream was not initialized for recording''"
  shows "snd (write N self w d) = (self, w)"
  using assms
  by (auto simp: write_def os_error_message_not_misuse
      split: if_splits prod.splits sum.splits dest!: get_libpulse_simple_Inl)

lemma drain_misuse:
  assumes "fst (drain N self w) = Inl (PaSimpleError m)"
    and "m = ''Cannot perform operation on closed stream'' \<or>
         m = ''Stream was not initialized for playback'' \<or>
         m = ''Stream was not initialized for recording''"
  shows "snd (drain N self w) = (self, w)"
  using assms
  by (auto simp: drain_def os_error_message_not_misuse
      split: if_splits prod.splits sum.splits dest!: get_libpulse_simple_Inl)

lemma flush_misuse:
  assumes "fst (flush N self w) = Inl (PaSimpleError m)"
    and "m = ''Cannot perform operation on closed stream'' \<or>
         m = ''Stream was not initialized for playback'' \<or>
         m = ''Stream was not initialized for recording''"
  shows "snd (flush N self w) = (self, w)"
  using assms
  by (auto simp: flush_def os_error_message_not_misuse
      split: if_splits prod.splits sum.splits dest!: get_libpulse_simple_Inl)

lemma get_latency_misuse:
  assumes "fst (get_latency N self w) = Inl (PaSimpleError m)"
    and "m = ''Cannot perform operation on closed stream'' \<or>
         m = ''Stream was not initialized for playback'' \<or>
         m = ''Stream was not initialized for recording''"
  shows "snd (get_latency N self w) = (self, w)"
  using assms
  by (auto simp: get_latency_def os_error_message_not_misuse c_int_ne_def
      split: if_splits prod.splits sum.splits lib_attr.splits dest!: get_libpulse_simple_Inl)

lemma close_misuse:
  assumes "fst (close N self w) = Inl (PaSimpleError m)"
    and "m = ''Cannot perform operation on closed stream'' \<or>
         m = ''Stream was not initialized for playback'' \<or>
         m = ''Stream was not initialized for recording''"
  shows "snd (close N self w) = (self, w)"
  using assms
  by (auto simp: close_def os_error_message_not_misuse Let_def
      split: if_splits prod.splits sum.splits dest!: get_libpulse_simple_Inl)

lemma map_sum_id_Inl:
  "map_sum id f r = Inl e \<longleftrightarrow> r = Inl e"
  by (cases r) auto

text \<open>
  Claim C3. When a method call raises one of the misuse errors (the closed-stream error or
  one of the two wrong-direction errors), the object and the world are what they were
  before the call: the list of native calls has not grown, so no native function was
  called, and the alive flag and the configuration of the stream are unchanged.
\<close>

theorem misuse_never_reaches_native:
  assumes "fst (step N x (self, w)) = Inl (PaSimpleError m)"
    and "m = ''Cannot perform operation on closed stream'' \<or>
         m = ''Stream was not initialized for playback'' \<or>
         m = ''Stream was not initialized for recording''"
  shows "snd (step N x (self, w)) = (self, w)
       \<and> calls (snd (snd (step N x (self, w)))) = calls w"
proof -
  have "snd (step N x (self, w)) = (self, w)"
  proof (cases x)
    case (Read n)
    with assms read_misuse [of N self w n m] show ?thesis
      by (simp add: map_sum_id_Inl snd_apfst)
  next
    case (Write d)
    with assms write_misuse [of N self w d m] show ?thesis
      by (simp add: map_sum_id_Inl snd_apfst)
  next
    case Drain
    with assms drain_misuse [of N self w m] show ?thesis
      by (simp add: map_sum_id_Inl snd_apfst)
  next
    case Flush
    with assms flush_misuse [of N self w m] show ?thesis
      by (simp add: map_sum_id_Inl snd_apfst)
  next
    case Get_latency
    with assms get_latency_misuse [of N self w m] show ?thesis
      by (simp add: map_sum_id_Inl snd_apfst)
  next
    case Close
    with assms close_misuse [of N self w m] show ?thesis
      by (simp add: map_sum_id_Inl snd_apfst)
  qed
  then show ?thesis by simp
qed

theorem misuse_never_reaches_native_witness:
  "fst (step fake_native (Write [1, 2]) (record_stream, record_world))
     = Inl (PaSimpleError ''Stream was not initialized for playback'')
   \<and> snd (step fake_native (Write [1, 2]) (record_stream, record_world))
     = (record_stream, record_world)
   \<and> fst (step fake_native Flush (record_stream\<lparr>self_stream_alive := False\<rparr>, record_world))
     = Inl (PaSimpleError ''Cannot perform operation on closed stream'')
   \<and> calls (snd (snd (step fake_native Flush
        (record_stream\<lparr>self_stream_alive := False\<rparr>, record_world))))
     = calls record_world"
proof -
  have a: "fst (step fake_native (Write [1, 2]) (record_stream, record_world))
     = Inl (PaSimpleError ''Stream was not initialized for playback'')"
    by (simp add: write_def record_stream_def PA_STREAM_PLAYBACK_def PA_STREAM_RECORD_def)
  have b: "fst (step fake_native Flush (record_stream\<lparr>self_stream_alive := False\<rparr>, record_world))
     = Inl (PaSimpleError ''Cannot perform operation on closed stream'')"
    by (simp add: flush_def)
  from misuse_never_reaches_native [OF a] misuse_never_reaches_native [OF b] a b
  show ?thesis by simp
qed

section \<open>Direction gating\<close>

text \<open>
  Claim C2, as stated, fails on a closed stream: every method tests the alive flag before
  the direction, so a closed record stream answers \<open>write\<close> with the closed-stream
  error and not with the wrong-direction error.
\<close>

theorem closed_record_write_counterexample:
  "self_direction (record_stream\<lparr>self_stream_alive := False\<rparr>) = PA_STREAM_RECORD
   \<and> close fake_native record_stream record_world
       = (Inr (), record_stream\<lparr>self_stream_alive := False\<rparr>,
          issue (Pa_simple_free (Some 4096)) record_world)
   \<and> fst (write fake_native (record_stream\<lparr>self_stream_alive := False\<rparr>)
            (issue (Pa_simple_free (Some 4096)) record_world) [1, 2])
       = Inl (PaSimpleError ''Cannot perform operation on closed stream'')
   \<and> fst (write fake_native (record_stream\<lparr>self_stream_alive := False\<rparr>)
            (issue (Pa_simple_free (Some 4096)) record_world) [1, 2])
       \<noteq> Inl (PaSimpleError ''Stream was not initialized for playback'')"
  by (simp add: write_def close_def get_libpulse_simple_loaded example_worlds_loaded
      record_stream_def)

text \<open>
  Claim C2, amended. On an open stream constructed with the record direction, \<open>write\<close>
  and \<open>drain\<close> raise \<open>PaSimpleError('Stream was not initialized for playback')\<close>;
  on an open stream constructed with the playback direction, \<open>read\<close> raises
  \<open>PaSimpleError('Stream was not initialized for recording')\<close>; on a closed stream of
  either direction the three methods raise the closed-stream error instead. In every
  case the object and the world are left as they were.
\<close>

theorem direction_gating:
  "(self_stream_alive self \<and> self_direction self = PA_STREAM_RECORD \<longrightarrow>
      write N self w data
        = (Inl (PaSimpleError ''Stream was not initialized for playback''), self, w)
      \<and> drain N self w
        = (Inl (PaSimpleError ''Stream was not initialized for playback''), self, w))
   \<and> (self_stream_alive self \<and> self_direction self = PA_STREAM_PLAYBACK \<longrightarrow>
      read N self w n
        = (Inl (PaSimpleError ''Stream was not initialized for recording''), self, w))
   \<and> (\<not> self_stream_alive self \<longrightarrow>
      write N self w data
        = (Inl (PaSimpleError ''Cannot perform operation on closed stream''), self, w)
      \<and> drain N self w
        = (Inl (PaSimpleError ''Cannot perform operation on closed stream''), self, w)
      \<and> read N self w n
        = (Inl (PaSimpleError ''Cannot perform operation on closed stream''), self, w))"
  by (simp add: write_def drain_def read_def PA_STREAM_PLAYBACK_def PA_STREAM_RECORD_def)

theorem direction_gating_witness:
  "fst (write fake_native record_stream record_world [1, 2])
     = Inl (PaSimpleError ''Stream was not initialized for playback'')
   \<and> fst (drain fake_native record_stream record_world)
     = Inl (PaSimpleError ''Stream was not initialized for playback'')
   \<and> fst (read fake_native playback_stream playback_world 4)
     = Inl (PaSimpleError ''Stream was not initialized for recording'')
   \<and> fst (drain fake_native (record_stream\<lparr>self_stream_alive := False\<rparr>) record_world)
     = Inl (PaSimpleError ''Cannot perform operation on closed stream'')"
proof -
  have r: "self_stream_alive record_stream \<and> self_direction record_stream = PA_STREAM_RECORD"
    by (simp add: record_stream_def)
  have p: "self_stream_alive playback_stream
      \<and> self_direction playback_stream = PA_STREAM_PLAYBACK"
    by (simp add: playback_stream_def)
  have c: "\<not> self_stream_alive (record_stream\<lparr>self_stream_alive := False\<rparr>)"
    by simp
  from r direction_gating [of record_stream fake_native record_world "[1, 2]" 4]
  have "write fake_native record_stream record_world [1, 2]
      = (Inl (PaSimpleError ''Stream was not initialized for playback''),
         record_stream, record_world)"
    and "drain fake_native record_stream record_world
      = (Inl (PaSimpleError ''Stream was not initialized for playback''),
         record_stream, record_world)"
    by blast+
  moreover from p direction_gating [of playback_stream fake_native playback_world "[]" 4]
  have "read fake_native playback_stream playback_world 4
      = (Inl (PaSimpleError ''Stream was not initialized for recording''),
         playback_stream, playback_world)"
    by blast
  moreover from c direction_gating [of "record_stream\<lparr>self_stream_alive := False\<rparr>"
      fake_native record_world "[]" 4]
  have "drain fake_native (record_stream\<lparr>self_stream_alive := False\<rparr>) record_world
      = (Inl (PaSimpleError ''Cannot perform operation on closed stream''),
         record_stream\<lparr>self_stream_alive := False\<rparr>, record_world)"
    by blast
  ultimately show ?thesis by simp
qed

section \<open>Latency\<close>

text \<open>
  \<open>get_latency\<close> has no returning path: whatever the library object and the native side
  are, the call raises.
\<close>

lemma get_latency_never_returns:
  "\<exists>e. fst (get_latency N self w) = Inl e"
  by (simp add: get_latency_def c_int_ne_def split: prod.splits sum.splits lib_attr.splits)

text \<open>
  Even with the attribute still bound to the foreign function, a native call that leaves
  0 in the error cell makes \<open>get_latency\<close> raise, because the guard compares the
  \<open>c_int\<close> object itself with 0.
\<close>

lemma get_latency_foreign_function:
  assumes "self_stream_alive self" and "libpulse_simple w = Some lib"
    and "pa_simple_get_latency lib = Foreign_function"
    and "native_get_latency N (calls w) (self_stream self) = (latency, 0)"
  shows "fst (get_latency N self w)
    = Inl (PaSimpleError (''Could not get latency, error code: '' @ str_int 0))"
  using assms by (simp add: get_latency_def get_libpulse_simple_loaded c_int_ne_def)

text \<open>
  Claim C4 fails on the code. On the open playback stream of the example, where the
  native side would report the latency 20000 with the error code 0, \<open>get_latency\<close>
  raises \<open>TypeError\<close> and returns no latency: \<open>get_libpulse_simple\<close> has bound the
  attribute \<open>pa_simple_get_latency\<close> of the library object to the class
  \<open>c_ulonglong\<close>, so the call constructs a \<open>c_ulonglong\<close> from two arguments and
  never reaches the native function.
\<close>

theorem get_latency_raises_type_error:
  "native_get_latency fake_native (calls playback_world) (self_stream playback_stream)
     = (20000, 0)
   \<and> get_latency fake_native playback_stream playback_world
     = (Inl (TypeError ''__init__ expected at most 1 argument, got 2''),
        playback_stream, playback_world)
   \<and> get_latency fake_native playback_stream playback_world
     \<noteq> (Inr 20000, playback_stream, playback_world)"
  by (simp add: get_latency_def get_libpulse_simple_loaded example_worlds_loaded
      playback_stream_def loaded_lib_def fake_native_def)

section \<open>Reading\<close>

lemma length_stored: "length (stored buf written) = length buf"
  by (simp add: stored_def)

lemma stored_full: "length written = length buf \<Longrightarrow> stored buf written = written"
  by (simp add: stored_def)

lemma as_c_int_id: "- (2 ^ 31) \<le> v \<Longrightarrow> v < 2 ^ 31 \<Longrightarrow> as_c_int v = v"
  by (simp add: as_c_int_def sint_sbintrunc' signed_take_bit_int_eq_self)

text \<open>
  Claim C5, as stated, fails for large \<open>n\<close>. For \<open>n = 2 ^ 63\<close> the open record
  stream of the example raises \<open>OverflowError\<close> from \<open>bytearray\<close>: the call fails
  without any native call, so the failure is not a native error. For \<open>n = 2 ^ 31\<close> the
  buffer has \<open>n\<close> bytes but the native call is asked for the C \<open>int\<close>
  \<open>- 2147483648\<close>, not for \<open>n\<close> bytes.
\<close>

theorem read_large_counterexample:
  "self_stream_alive record_stream
   \<and> self_direction record_stream = PA_STREAM_RECORD
   \<and> read fake_native record_stream record_world 9223372036854775808
     = (Inl (OverflowError
               (''cannot fit '' @ CHR 0x27 # ''int'' @ CHR 0x27 # '' into an index-sized integer'')),
        record_stream, record_world)
   \<and> snd (snd (read fake_native record_stream record_world 2147483648))
     = issue (Pa_simple_read (Some 4096) (- 2147483648)) record_world"
  by (simp add: read_def bytearray_def get_libpulse_simple_loaded example_worlds_loaded
      record_stream_def fake_native_def as_c_int_def)

text \<open>
  Claim C5, amended. On an open record stream, in a world where the library is loaded (as
  it is wherever a stream is open), \<open>read(n)\<close> with \<open>0 \<le> n < 2 ^ 31\<close> whose buffer
  is granted asks the native library for \<open>n\<close> bytes and then either raises the native
  error (when the call returns non-zero) or returns the record buffer: exactly \<open>n\<close>
  bytes, the zero-initialised buffer with the bytes the native call stored in it; when the
  native call stored \<open>n\<close> bytes, exactly those. With \<open>n \<ge> 2 ^ 63\<close> the call raises
  \<open>OverflowError\<close>, and with a buffer that is not granted \<open>MemoryError\<close>, both
  before any native call.
\<close>

theorem read_exact_length:
  assumes "self_stream_alive self" and "self_direction self = PA_STREAM_RECORD"
    and "libpulse_simple w = Some lib"
    and "native_read N (calls w) (self_stream self) n = (ok, err, written)"
  shows "(0 \<le> n \<and> n < 2 ^ 31 \<and> allocates N (calls w) n \<and> ok \<noteq> 0 \<longrightarrow>
            read N self w n
              = (Inl (PaSimpleError (''Could not record audio, error code: '' @ str_int err)),
                 self, issue (Pa_simple_read (self_stream self) n) w))
       \<and> (0 \<le> n \<and> n < 2 ^ 31 \<and> allocates N (calls w) n \<and> ok = 0 \<longrightarrow>
            (\<exists>buf. read N self w n
                 = (Inr buf, self, issue (Pa_simple_read (self_stream self) n) w)
               \<and> int (length buf) = n
               \<and> buf = stored (replicate (nat n) 0) written
               \<and> (int (length written) = n \<longrightarrow> buf = written)))
       \<and> (2 ^ 63 \<le> n \<longrightarrow>
            read N self w n
              = (Inl (OverflowError
                        (''cannot fit '' @ CHR 0x27 # ''int'' @ CHR 0x27
                         # '' into an index-sized integer'')),
                 self, w))
       \<and> (0 \<le> n \<and> n < 2 ^ 63 \<and> \<not> allocates N (calls w) n \<longrightarrow>
            read N self w n = (Inl MemoryError, self, w))"
proof (intro conjI impI)
  assume "0 \<le> n \<and> n < 2 ^ 31 \<and> allocates N (calls w) n \<and> ok \<noteq> 0"
  then show "read N self w n
      = (Inl (PaSimpleError (''Could not record audio, error code: '' @ str_int err)),
         self, issue (Pa_simple_read (self_stream self) n) w)"
    using assms
    by (simp add: read_def bytearray_def get_libpulse_simple_loaded as_c_int_id)
next
  assume "0 \<le> n \<and> n < 2 ^ 31 \<and> allocates N (calls w) n \<and> ok = 0"
  then show "\<exists>buf. read N self w n
         = (Inr buf, self, issue (Pa_simple_read (self_stream self) n) w)
       \<and> int (length buf) = n
       \<and> buf = stored (replicate (nat n) 0) written
       \<and> (int (length written) = n \<longrightarrow> buf = written)"
    using assms
    by (simp add: read_def bytearray_def get_libpulse_simple_loaded as_c_int_id
        length_stored stored_full)
next
  assume "2 ^ 63 \<le> n"
  then show "read N self w n
      = (Inl (OverflowError
                (''cannot fit '' @ CHR 0x27 # ''int'' @ CHR 0x27
                 # '' into an index-sized integer'')),
         self, w)"
    using assms by (simp add: read_def bytearray_def)
next
  assume "0 \<le> n \<and> n < 2 ^ 63 \<and> \<not> allocates N (calls w) n"
  then show "read N self w n = (Inl MemoryError, self, w)"
    using assms by (simp add: read_def bytearray_def)
qed

theorem read_exact_length_witness:
  "fst (read fake_native record_stream record_world 4) = Inr [42, 42, 42, 42]
   \<and> fst (read failing_native record_stream record_world 4)
     = Inl (PaSimpleError ''Could not record audio, error code: 3'')
   \<and> fst (read fake_native record_stream record_world 0) = Inr []
   \<and> fst (read fake_native record_stream record_world (2 ^ 63))
     = Inl (OverflowError
              (''cannot fit '' @ CHR 0x27 # ''int'' @ CHR 0x27 # '' into an index-sized integer''))
   \<and> fst (read exhausted_native record_stream record_world 4) = Inl MemoryError"
proof -
  have alive: "self_stream_alive record_stream"
    and dir: "self_direction record_stream = PA_STREAM_RECORD"
    by (simp_all add: record_stream_def)
  have lib: "libpulse_simple record_world = Some loaded_lib"
    by (rule example_worlds_loaded)
  have ok: "native_read fake_native (calls record_world) (self_stream record_stream) 4
      = (0, 0, [42, 42, 42, 42])"
    by (simp add: fake_native_def numeral_eq_Suc)
  have ok0: "native_read fake_native (calls record_world) (self_stream record_stream) 0
      = (0, 0, [])"
    by (simp add: fake_native_def)
  have big: "native_read fake_native (calls record_world) (self_stream record_stream) (2 ^ 63)
      = (0, 0, replicate (nat (2 ^ 63)) 42)"
    by (simp add: fake_native_def)
  have bad: "native_read failing_native (calls record_world) (self_stream record_stream) 4
      = (- 1, 3, [])"
    by (simp add: failing_native_def)
  have out: "native_read exhausted_native (calls record_world) (self_stream record_stream) 4
      = (0, 0, [42, 42, 42, 42])"
    by (simp add: exhausted_native_def fake_native_def numeral_eq_Suc)
  have grant: "allocates fake_native (calls record_world) 4"
    "allocates fake_native (calls record_world) 0"
    "allocates failing_native (calls record_world) 4"
    "\<not> allocates exhausted_native (calls record_world) 4"
    by (simp_all add: fake_native_def failing_native_def exhausted_native_def)
  have three: "str_int 3 = ''3''"
    by code_simp
  from read_exact_length [OF alive dir lib ok] grant
  have "fst (read fake_native record_stream record_world 4) = Inr [42, 42, 42, 42]"
    by auto
  moreover from read_exact_length [OF alive dir lib ok0] grant
  have "fst (read fake_native record_stream record_world 0) = Inr []"
    by auto
  moreover from read_exact_length [OF alive dir lib bad] grant
  have "fst (read failing_native record_stream record_world 4)
     = Inl (PaSimpleError ''Could not record audio, error code: 3'')"
    by (simp add: three)
  moreover from read_exact_length [OF alive dir lib big]
  have "fst (read fake_native record_stream record_world (2 ^ 63))
     = Inl (OverflowError
              (''cannot fit '' @ CHR 0x27 # ''int'' @ CHR 0x27 # '' into an index-sized integer''))"
    by simp
  moreover from read_exact_length [OF alive dir lib out] grant
  have "fst (read exhausted_native record_stream record_world 4) = Inl MemoryError"
    by simp
  ultimately show ?thesis by simp
qed

section \<open>Loading the native library\<close>

text \<open>
  Claim C8. The module global starts unset and only \<open>get_libpulse_simple\<close> sets it.
  While it is unset, a call attempts the load: when \<open>CDLL\<close> raises \<open>OSError\<close> the
  call raises \<open>PaSimpleError\<close> (and so does the constructor that made the call), the
  global stays unset, and the next call attempts the load again and returns the library
  when that attempt succeeds. Once the global is set, every call returns the same
  library object and leaves the world as it is: no further load is attempted.
\<close>

theorem capability_load_memoized:
  "libpulse_simple initial_world = None
   \<and> (libpulse_simple w = None \<and> dlopen N (load_attempts w) = OSError msg \<longrightarrow>
        get_libpulse_simple N w
          = (Inl (PaSimpleError (os_error_message msg)),
             w\<lparr>load_attempts := Suc (load_attempts w)\<rparr>)
        \<and> libpulse_simple (snd (get_libpulse_simple N w)) = None
        \<and> fst (PaSimple N w dir fmt chans rt kw) = Inl (PaSimpleError (os_error_message msg)))
   \<and> (libpulse_simple w = None \<and> dlopen N (load_attempts w) = OSError msg
        \<and> dlopen N (Suc (load_attempts w)) = Loaded \<longrightarrow>
        (\<exists>lib w'. get_libpulse_simple N (snd (get_libpulse_simple N w)) = (Inr lib, w')
           \<and> libpulse_simple w' = Some lib
           \<and> load_attempts w' = Suc (Suc (load_attempts w))))
   \<and> (libpulse_simple w = None \<and> dlopen N (load_attempts w) = Loaded \<longrightarrow>
        (\<exists>lib w'. get_libpulse_simple N w = (Inr lib, w')
           \<and> libpulse_simple w' = Some lib
           \<and> load_attempts w' = Suc (load_attempts w)))
   \<and> (libpulse_simple w = Some lib \<longrightarrow> get_libpulse_simple N w = (Inr lib, w))"
  by (simp add: initial_world_def get_libpulse_simple_def PaSimple_def Let_def)

theorem capability_load_memoized_witness:
  "get_libpulse_simple fake_native initial_world
     = (Inl (PaSimpleError (os_error_message ''libpulse-simple.so.0: cannot open'')),
        initial_world\<lparr>load_attempts := 1\<rparr>)
   \<and> get_libpulse_simple fake_native (initial_world\<lparr>load_attempts := 1\<rparr>)
     = (Inr loaded_lib, loaded_world)
   \<and> get_libpulse_simple fake_native loaded_world = (Inr loaded_lib, loaded_world)
   \<and> fst (PaSimple fake_native initial_world PA_STREAM_PLAYBACK PA_SAMPLE_S16LE 2 44100
        default_kwargs)
     = Inl (PaSimpleError (os_error_message ''libpulse-simple.so.0: cannot open''))"
proof -
  have none: "libpulse_simple initial_world = None"
    by (simp add: initial_world_def)
  have fails: "dlopen fake_native (load_attempts initial_world)
      = OSError ''libpulse-simple.so.0: cannot open''"
    by (simp add: fake_native_def initial_world_def)
  have again: "dlopen fake_native (Suc (load_attempts initial_world)) = Loaded"
    by (simp add: fake_native_def initial_world_def)
  have loaded: "libpulse_simple loaded_world = Some loaded_lib"
    by (simp add: loaded_world_def)
  have w1: "initial_world\<lparr>load_attempts := Suc (load_attempts initial_world)\<rparr>
      = initial_world\<lparr>load_attempts := 1\<rparr>"
    by (simp add: initial_world_def)
  note t0 = capability_load_memoized [of initial_world fake_native
      "''libpulse-simple.so.0: cannot open''" PA_STREAM_PLAYBACK PA_SAMPLE_S16LE 2 44100
      default_kwargs loaded_lib]
  from t0 none fails
  have first: "get_libpulse_simple fake_native initial_world
     = (Inl (PaSimpleError (os_error_message ''libpulse-simple.so.0: cannot open'')),
        initial_world\<lparr>load_attempts := Suc (load_attempts initial_world)\<rparr>)"
    and ctor: "fst (PaSimple fake_native initial_world PA_STREAM_PLAYBACK PA_SAMPLE_S16LE 2 44100
        default_kwargs)
     = Inl (PaSimpleError (os_error_message ''libpulse-simple.so.0: cannot open''))"
    by blast+
  from t0 none fails again
  obtain lib w' where second: "get_libpulse_simple fake_native
      (snd (get_libpulse_simple fake_native initial_world)) = (Inr lib, w')"
    and cell: "libpulse_simple w' = Some lib"
    and attempts: "load_attempts w' = Suc (Suc (load_attempts initial_world))"
    by blast
  have second': "get_libpulse_simple fake_native (initial_world\<lparr>load_attempts := 1\<rparr>)
      = (Inr lib, w')"
    using second by (simp add: first w1)
  have "get_libpulse_simple fake_native (initial_world\<lparr>load_attempts := 1\<rparr>)
      = (Inr loaded_lib, loaded_world)"
    by (simp add: get_libpulse_simple_def fake_native_def loaded_lib_def
        loaded_world_def CDLL_object_def initial_world_def eval_nat_numeral Let_def)
  with second' have libw: "lib = loaded_lib" "w' = loaded_world"
    by simp_all
  from capability_load_memoized [of loaded_world fake_native "[]" PA_STREAM_PLAYBACK
      PA_SAMPLE_S16LE 2 44100 default_kwargs loaded_lib] loaded
  have third: "get_libpulse_simple fake_native loaded_world = (Inr loaded_lib, loaded_world)"
    by blast
  from first second' libw third ctor show ?thesis
    by (simp add: w1)
qed

section \<open>Construction\<close>

lemma PaSimple_calls:
  assumes "get_libpulse_simple N w = (Inr lib, w1)"
  shows "calls (snd (PaSimple N w dir fmt chans rt kw))
    = calls w @ [Pa_simple_new (open_args dir fmt chans rt kw)]"
proof -
  from get_libpulse_simple_Inr [OF assms] have "calls w1 = calls w"
    by simp
  then show ?thesis
    using assms
    by (simp add: PaSimple_def Let_def issue_simps split: prod.splits option.splits)
qed

text \<open>
  Claim C9. Whenever the constructor reaches the native open call, the call it issues
  carries the arguments \<open>open_args\<close> prepares. With the default keyword arguments
  (all five buffer parameters - 1), each of the five fields of the buffer attributes is
  4294967295, that is \<open>2 ^ 32 - 1\<close>, all 32 bits set. In general each field holds the
  given integer modulo \<open>2 ^ 32\<close>, so a byte count below \<open>2 ^ 32\<close> is passed
  unchanged.
\<close>

theorem buffer_attr_sentinel:
  "(get_libpulse_simple N w = (Inr lib, w1) \<longrightarrow>
      calls (snd (PaSimple N w dir fmt chans rt kw))
        = calls w @ [Pa_simple_new (open_args dir fmt chans rt kw)])
   \<and> arg_buffer_attr (open_args dir fmt chans rt default_kwargs)
       = \<lparr>maxlength = 4294967295, tlength = 4294967295, prebuf = 4294967295,
          minreq = 4294967295, fragsize = 4294967295\<rparr>
   \<and> (4294967295 :: 32 word) = NOT 0
   \<and> unat (4294967295 :: 32 word) = 2 ^ 32 - 1
   \<and> uint (maxlength (arg_buffer_attr (open_args dir fmt chans rt kw)))
       = kw_maxlength kw mod 2 ^ 32
   \<and> uint (tlength (arg_buffer_attr (open_args dir fmt chans rt kw)))
       = kw_tlength kw mod 2 ^ 32
   \<and> uint (prebuf (arg_buffer_attr (open_args dir fmt chans rt kw)))
       = kw_prebuf kw mod 2 ^ 32
   \<and> uint (minreq (arg_buffer_attr (open_args dir fmt chans rt kw)))
       = kw_minreq kw mod 2 ^ 32
   \<and> uint (fragsize (arg_buffer_attr (open_args dir fmt chans rt kw)))
       = kw_fragsize kw mod 2 ^ 32"
proof -
  have sent: "(- 1 :: 32 word) = 4294967295"
    by simp
  have "arg_buffer_attr (open_args dir fmt chans rt default_kwargs)
       = \<lparr>maxlength = 4294967295, tlength = 4294967295, prebuf = 4294967295,
          minreq = 4294967295, fragsize = 4294967295\<rparr>"
    by (simp add: open_args_def default_kwargs_def pa_buffer_attr_of_def)
  moreover have "(4294967295 :: 32 word) = NOT 0"
    by simp
  moreover have "unat (4294967295 :: 32 word) = 2 ^ 32 - 1"
    by simp
  moreover have "\<And>v. uint (of_int v :: 32 word) = v mod 2 ^ 32"
    by (simp add: uint_word_of_int)
  ultimately show ?thesis
    using PaSimple_calls [of N w lib w1 dir fmt chans rt kw]
    by (simp add: open_args_def pa_buffer_attr_of_def)
qed

theorem buffer_attr_sentinel_witness:
  "calls (snd (PaSimple fake_native loaded_world PA_STREAM_PLAYBACK PA_SAMPLE_S16LE 2 44100
       default_kwargs))
     = [Pa_simple_new (open_args PA_STREAM_PLAYBACK PA_SAMPLE_S16LE 2 44100 default_kwargs)]
   \<and> arg_buffer_attr (open_args PA_STREAM_PLAYBACK PA_SAMPLE_S16LE 2 44100 default_kwargs)
     = \<lparr>maxlength = 4294967295, tlength = 4294967295, prebuf = 4294967295,
        minreq = 4294967295, fragsize = 4294967295\<rparr>
   \<and> uint (tlength (arg_buffer_attr (open_args PA_STREAM_PLAYBACK PA_SAMPLE_S16LE 2 44100
       (default_kwargs\<lparr>kw_tlength := 88200\<rparr>))))
     = 88200"
proof -
  have g: "get_libpulse_simple fake_native loaded_world = (Inr loaded_lib, loaded_world)"
    by (simp add: get_libpulse_simple_loaded loaded_world_def)
  have e: "calls loaded_world = []"
    by (simp add: loaded_world_def)
  from buffer_attr_sentinel [of fake_native loaded_world loaded_lib loaded_world
      PA_STREAM_PLAYBACK PA_SAMPLE_S16LE 2 44100 default_kwargs] g e
  have "calls (snd (PaSimple fake_native loaded_world PA_STREAM_PLAYBACK PA_SAMPLE_S16LE 2 44100
       default_kwargs))
     = [Pa_simple_new (open_args PA_STREAM_PLAYBACK PA_SAMPLE_S16LE 2 44100 default_kwargs)]"
    and "arg_buffer_attr (open_args PA_STREAM_PLAYBACK PA_SAMPLE_S16LE 2 44100 default_kwargs)
     = \<lparr>maxlength = 4294967295, tlength = 4294967295, prebuf = 4294967295,
        minreq = 4294967295, fragsize = 4294967295\<rparr>"
    by simp_all
  moreover from buffer_attr_sentinel [of fake_native loaded_world loaded_lib loaded_world
      PA_STREAM_PLAYBACK PA_SAMPLE_S16LE 2 44100 "default_kwargs\<lparr>kw_tlength := 88200\<rparr>"]
  have "uint (tlength (arg_buffer_attr (open_args PA_STREAM_PLAYBACK PA_SAMPLE_S16LE 2 44100
       (default_kwargs\<lparr>kw_tlength := 88200\<rparr>))))
     = 88200"
    by simp
  ultimately show ?thesis by simp
qed

section \<open>Accessors\<close>

text \<open>
  Claim C10. For a stream the constructor returned, \<open>direction()\<close>, \<open>format()\<close>,
  \<open>channels()\<close> and \<open>rate()\<close> return the constructor's arguments, before and
  after any sequence of \<open>read\<close>, \<open>write\<close>, \<open>drain\<close>, \<open>flush\<close>,
  \<open>get_latency\<close> and \<open>close\<close> calls. The accessors read an attribute and test
  nothing, so they have no raising path, on a closed stream as on an open one.
\<close>

theorem accessors_constant:
  assumes "PaSimple N w0 d f c r kw = (Inr self, w)"
    and "run N xs (self, w) = (rs, self', w')"
  shows "direction self = d \<and> format self = f \<and> channels self = c \<and> rate self = r
       \<and> direction self' = d \<and> format self' = f \<and> channels self' = c \<and> rate self' = r
       \<and> self_stream self' = self_stream self"
proof -
  from PaSimple_open [OF assms(1)]
  obtain lib where lib: "libpulse_simple w = Some lib"
    and cfg: "self_direction self = d" "self_format self = f" "self_channels self = c"
      "self_rate self = r"
    by auto
  from run_frame [OF lib, of N xs self] assms(2)
  have "self' = self\<lparr>self_stream_alive := self_stream_alive self \<and> Close \<notin> set xs\<rparr>"
    by auto
  with cfg show ?thesis
    by (simp add: direction_def format_def channels_def rate_def)
qed

theorem accessors_constant_witness:
  "PaSimple fake_native loaded_world PA_STREAM_PLAYBACK PA_SAMPLE_S16LE 2 44100 default_kwargs
     = (Inr playback_stream, playback_world)
   \<and> snd (run fake_native [Write [1, 2], Close, Flush, Close] (playback_stream, playback_world))
     = (playback_stream\<lparr>self_stream_alive := False\<rparr>,
        issue (Pa_simple_free (Some 4096))
          (issue (Pa_simple_write (Some 4096) [1, 2] 2) playback_world))
   \<and> \<not> self_stream_alive (playback_stream\<lparr>self_stream_alive := False\<rparr>)
   \<and> direction (playback_stream\<lparr>self_stream_alive := False\<rparr>) = PA_STREAM_PLAYBACK
   \<and> format (playback_stream\<lparr>self_stream_alive := False\<rparr>) = PA_SAMPLE_S16LE
   \<and> channels (playback_stream\<lparr>self_stream_alive := False\<rparr>) = 2
   \<and> rate (playback_stream\<lparr>self_stream_alive := False\<rparr>) = 44100"
  using accessors_constant [OF playback_constructed playback_lifetime]
    playback_constructed playback_lifetime
  by simp

end
